theory Spec2Isabelle
  imports Main
begin

section \<open>The Tomato scheduler plugin of aiida-aurora\<close>

text \<open>
  This theory embeds \<^verbatim>\<open>src/aiida_aurora/scheduler.py\<close>: the command builders and the
  output parsers of \<^verbatim>\<open>TomatoScheduler\<close>, the status table and the submission regular
  expression.

  A Python \<^verbatim>\<open>str\<close> is modelled as a \<^typ>\<open>string\<close>; a \<^typ>\<open>char\<close> stands for a code point
  below 256, and the character classes below are Python's classes restricted to that range.
  Exceptions are values of the type \<open>error\<close>, carrying the message the source builds.
  Calls of the logger do not change any returned value or raise, and are left out.
\<close>

subsection \<open>Python string primitives\<close>

definition newline :: char where
  "newline = CHR 0x0A"

definition carriage_return :: char where
  "carriage_return = CHR 0x0D"

text \<open>\<^verbatim>\<open>str.isspace\<close> on one character; also what \<^verbatim>\<open>\s\<close> matches in a \<^verbatim>\<open>str\<close> pattern.\<close>

definition py_isspace :: "char \<Rightarrow> bool" where
  "py_isspace c \<longleftrightarrow> c \<in> {CHR 0x09, CHR 0x0A, CHR 0x0B, CHR 0x0C, CHR 0x0D,
     CHR 0x1C, CHR 0x1D, CHR 0x1E, CHR 0x1F, CHR 0x20, CHR 0x85, CHR 0xA0}"

text \<open>What \<^verbatim>\<open>\d\<close> matches: the decimal digits, code points 48 to 57.\<close>

definition py_isdigit :: "char \<Rightarrow> bool" where
  "py_isdigit c \<longleftrightarrow> 48 \<le> (of_char c :: nat) \<and> (of_char c :: nat) \<le> 57"

text \<open>The line boundaries of \<^verbatim>\<open>str.splitlines\<close>.\<close>

definition is_linebreak :: "char \<Rightarrow> bool" where
  "is_linebreak c \<longleftrightarrow> c \<in> {CHR 0x0A, CHR 0x0B, CHR 0x0C, CHR 0x0D,
     CHR 0x1C, CHR 0x1D, CHR 0x1E, CHR 0x85}"

text \<open>\<^verbatim>\<open>s.strip()\<close>: whitespace removed at both ends.\<close>

definition strip :: "string \<Rightarrow> string" where
  "strip s = rev (dropWhile py_isspace (rev (dropWhile py_isspace s)))"

text \<open>
  \<^verbatim>\<open>s.splitlines()\<close>: the lines of \<open>s\<close> without their boundaries; \<^verbatim>\<open>\r\n\<close> is one
  boundary, and a boundary at the very end opens no further line. The first argument
  collects the current line in reverse.
\<close>

fun splitlines_from :: "string \<Rightarrow> string \<Rightarrow> string list" where
  "splitlines_from acc [] = (if acc = [] then [] else [rev acc])"
| "splitlines_from acc [c] = (if is_linebreak c then [rev acc] else [rev (c # acc)])"
| "splitlines_from acc (c # d # cs) =
     (if c = carriage_return \<and> d = newline then rev acc # splitlines_from [] cs
      else if is_linebreak c then rev acc # splitlines_from [] (d # cs)
      else splitlines_from (c # acc) (d # cs))"

definition splitlines :: "string \<Rightarrow> string list" where
  "splitlines s = splitlines_from [] s"

text \<open>\<^verbatim>\<open>s.split('\n')\<close>: the pieces between newlines, empty pieces kept.\<close>

fun split_newline_from :: "string \<Rightarrow> string \<Rightarrow> string list" where
  "split_newline_from acc [] = [rev acc]"
| "split_newline_from acc (c # cs) =
     (if c = newline then rev acc # split_newline_from [] cs
      else split_newline_from (c # acc) cs)"

definition split_newline :: "string \<Rightarrow> string list" where
  "split_newline s = split_newline_from [] s"

text \<open>\<^verbatim>\<open>s.split()\<close>: the maximal runs of characters that are not whitespace.\<close>

fun split_from :: "string \<Rightarrow> string \<Rightarrow> string list" where
  "split_from acc [] = (if acc = [] then [] else [rev acc])"
| "split_from acc (c # cs) =
     (if py_isspace c then (if acc = [] then split_from [] cs else rev acc # split_from [] cs)
      else split_from (c # acc) cs)"

definition split :: "string \<Rightarrow> string list" where
  "split s = split_from [] s"

text \<open>\<^verbatim>\<open>p in s\<close> for strings: \<open>p\<close> occurs in \<open>s\<close> as a contiguous piece.\<close>

fun starts_with :: "string \<Rightarrow> string \<Rightarrow> bool" where
  "starts_with [] s = True"
| "starts_with (p # ps) [] = False"
| "starts_with (p # ps) (c # cs) = (p = c \<and> starts_with ps cs)"

fun contains :: "string \<Rightarrow> string \<Rightarrow> bool" where
  "contains p [] = (p = [])"
| "contains p (c # cs) = (starts_with p (c # cs) \<or> contains p cs)"

text \<open>\<^verbatim>\<open>sep.join(xs)\<close>.\<close>

fun join :: "string \<Rightarrow> string list \<Rightarrow> string" where
  "join sep [] = []"
| "join sep [x] = x"
| "join sep (x # y # ys) = x @ sep @ join sep (y # ys)"

text \<open>\<^verbatim>\<open>str(n)\<close> for an integer, as an f-string renders it.\<close>

fun str_nat :: "nat \<Rightarrow> string" where
  "str_nat n = (if n < 10 then [char_of (48 + n)]
                else str_nat (n div 10) @ [char_of (48 + n mod 10)])"

definition str_int :: "int \<Rightarrow> string" where
  "str_int i = (if i < 0 then CHR ''-'' # str_nat (nat (- i)) else str_nat (nat i))"

subsection \<open>Exceptions and job records\<close>

datatype error =
    SchedulerError string
  | FeatureNotAvailable string
  | ValueError string
  | IndexError string
  | TypeError string

datatype JobState = QUEUED | RUNNING | DONE | UNDETERMINED

text \<open>The fields of \<^verbatim>\<open>JobInfo\<close> that \<^verbatim>\<open>_parse_joblist_output\<close> sets.\<close>

record JobInfo =
  job_id :: string
  job_state :: JobState
  pipeline :: "string option"
  raw_data :: "string list"

subsection \<open>The status table\<close>

definition MAP_STATUS_TOMATO :: "string \<rightharpoonup> JobState" where
  "MAP_STATUS_TOMATO =
     [''q'' \<mapsto> QUEUED, ''qw'' \<mapsto> QUEUED, ''r'' \<mapsto> RUNNING,
      ''c'' \<mapsto> DONE, ''ce'' \<mapsto> DONE, ''cd'' \<mapsto> DONE]"

text \<open>
  The \<^verbatim>\<open>try\<close> block of \<^verbatim>\<open>_parse_joblist_output\<close>: the table entry, and
  \<^verbatim>\<open>UNDETERMINED\<close> where the lookup raises \<^verbatim>\<open>KeyError\<close>.
\<close>

definition map_status :: "string \<Rightarrow> JobState" where
  "map_status token =
     (case MAP_STATUS_TOMATO token of Some st \<Rightarrow> st | None \<Rightarrow> UNDETERMINED)"

subsection \<open>The submission pattern\<close>

text \<open>
  A pattern is a backtracking matcher in continuation style: it consumes a prefix of the
  input and hands the rest to its continuation; where the continuation fails, it tries its
  next alternative, in the order of Python's \<^verbatim>\<open>re\<close> module (greedy quantifiers try the
  longest repetition first). \<^verbatim>\<open>None\<close> is "no match".
\<close>

type_synonym 'a matcher = "string \<Rightarrow> 'a option"

text \<open>One character of a class.\<close>

definition re_char :: "(char \<Rightarrow> bool) \<Rightarrow> 'a matcher \<Rightarrow> 'a matcher" where
  "re_char P k s = (case s of [] \<Rightarrow> None | c # cs \<Rightarrow> if P c then k cs else None)"

text \<open>A literal text.\<close>

fun re_lit :: "string \<Rightarrow> 'a matcher \<Rightarrow> 'a matcher" where
  "re_lit [] k = k"
| "re_lit (c # cs) k = re_char (\<lambda>x. x = c) (re_lit cs k)"

text \<open>\<^verbatim>\<open>X*\<close> for a character class \<open>X\<close>, greedy.\<close>

fun re_star :: "(char \<Rightarrow> bool) \<Rightarrow> 'a matcher \<Rightarrow> 'a matcher" where
  "re_star P k [] = k []"
| "re_star P k (c # cs) =
     (if P c then (case re_star P k cs of Some r \<Rightarrow> Some r | None \<Rightarrow> k (c # cs))
      else k (c # cs))"

text \<open>\<^verbatim>\<open>X+\<close> for a character class \<open>X\<close>, greedy.\<close>

definition re_plus :: "(char \<Rightarrow> bool) \<Rightarrow> 'a matcher \<Rightarrow> 'a matcher" where
  "re_plus P k = re_char P (re_star P k)"

text \<open>\<^verbatim>\<open>(R)?\<close>, greedy: with \<open>R\<close> first, without it otherwise.\<close>

definition re_opt :: "('a matcher \<Rightarrow> 'a matcher) \<Rightarrow> 'a matcher \<Rightarrow> 'a matcher" where
  "re_opt r k s = (case r k s of Some x \<Rightarrow> Some x | None \<Rightarrow> k s)"

text \<open>A group whose text is read afterwards: the continuation receives what \<open>R\<close> consumed.\<close>

definition re_group ::
    "('a matcher \<Rightarrow> 'a matcher) \<Rightarrow> (string \<Rightarrow> 'a matcher) \<Rightarrow> 'a matcher" where
  "re_group r k s = r (\<lambda>rest. k (take (length s - length rest) s) rest) s"

text \<open>\<^verbatim>\<open>.\<close> matches every character but the newline.\<close>

definition re_dot :: "char \<Rightarrow> bool" where
  "re_dot c \<longleftrightarrow> c \<noteq> newline"

text \<open>
  \<^verbatim>\<open>_TOMATO_SUBMITTED_REGEXP.match(s)\<close> followed by \<^verbatim>\<open>.group('jobid')\<close>, for the pattern
  \<^verbatim>\<open>(.*:\s*)?(jobid\s+=)\s+(?P<jobid>\d+)\<close>. \<^verbatim>\<open>match\<close> anchors the pattern at the start
  of \<open>s\<close> and lets it end anywhere.
\<close>

text \<open>The first group without its question mark: \<^verbatim>\<open>.*:\s*\<close>.\<close>

definition prefix_part :: "'a matcher \<Rightarrow> 'a matcher" where
  "prefix_part k = re_star re_dot (re_lit '':'' (re_star py_isspace k))"

text \<open>
  The rest of the pattern, \<^verbatim>\<open>(jobid\s+=)\s+(?P<jobid>\d+)\<close>, returning the text of the
  group \<^verbatim>\<open>jobid\<close>.
\<close>

definition jobid_part :: "string \<Rightarrow> string option" where
  "jobid_part =
     re_lit ''jobid'' (re_plus py_isspace (re_lit ''=''
       (re_plus py_isspace
         (re_group (re_plus py_isdigit) (\<lambda>jobid rest. Some jobid)))))"

definition TOMATO_SUBMITTED_REGEXP :: "string \<Rightarrow> string option" where
  "TOMATO_SUBMITTED_REGEXP = re_opt prefix_part jobid_part"

subsection \<open>Command builders\<close>

text \<open>
  \<^verbatim>\<open>escape_for_bash\<close> belongs to aiida-core, not to this repository: the builders take it
  as the parameter \<open>esc\<close>. The function below is its single-quote form (wrap in single
  quotes, each inner single quote replaced by \<^verbatim>\<open>'"'"'\<close>), used to run the builders on
  concrete inputs.
\<close>

definition squote :: char where
  "squote = CHR 0x27"

definition dquote :: char where
  "dquote = CHR 0x22"

definition escape_for_bash :: "string \<Rightarrow> string" where
  "escape_for_bash s =
     squote # concat (map (\<lambda>c. if c = squote then [squote, dquote, squote, dquote, squote]
                                 else [c]) s) @ [squote]"

text \<open>The values \<^verbatim>\<open>jobs\<close> takes: \<^verbatim>\<open>None\<close>, one string, or a list of strings.\<close>

datatype jobs_arg = JobsNone | JobsStr string | JobsList "string list"

text \<open>Python's truth value and \<^verbatim>\<open>len\<close> of such a value.\<close>

fun jobs_truthy :: "jobs_arg \<Rightarrow> bool" where
  "jobs_truthy JobsNone = False"
| "jobs_truthy (JobsStr s) = (s \<noteq> [])"
| "jobs_truthy (JobsList js) = (js \<noteq> [])"

fun jobs_len :: "jobs_arg \<Rightarrow> nat" where
  "jobs_len JobsNone = 0"
| "jobs_len (JobsStr s) = length s"
| "jobs_len (JobsList js) = length js"

text \<open>
  \<^verbatim>\<open>_get_joblist_command(jobs, user)\<close>. The \<^verbatim>\<open>TypeError\<close> handler guards the iteration
  over \<^verbatim>\<open>jobs\<close>, which cannot fail on a list of strings. \<^verbatim>\<open>None\<close> is never true, so
  its case under the truth test is not reached.
\<close>

definition get_joblist_command ::
    "(string \<Rightarrow> string) \<Rightarrow> jobs_arg \<Rightarrow> string option \<Rightarrow> error + string" where
  "get_joblist_command esc jobs user =
     (let command = [''ketchup'', ''-t'', ''status''] in
      if user \<noteq> None \<and> user \<noteq> Some [] then Inl (FeatureNotAvailable ''Cannot query by user'')
      else if jobs_truthy jobs then
        (if jobs_len jobs > 1
         then Inl (FeatureNotAvailable ''ketchup status supports only one job per time'')
         else (case jobs of
                 JobsStr s \<Rightarrow> Inr (join '' '' (command @ [esc s]))
               | JobsList js \<Rightarrow> Inr (join '' '' (command @ [join '' '' (map esc js)]))
               | JobsNone \<Rightarrow> Inr (join '' '' (command @ [''queue'']))))
      else Inr (join '' '' (command @ [''queue''])))"

text \<open>\<^verbatim>\<open>_get_detailed_job_info_command(job_id)\<close>.\<close>

definition get_detailed_job_info_command :: "(string \<Rightarrow> string) \<Rightarrow> string \<Rightarrow> string" where
  "get_detailed_job_info_command esc job = ''ketchup -t status '' @ esc job"

text \<open>\<^verbatim>\<open>_get_submit_command(submit_script)\<close>.\<close>

definition get_submit_command :: "string \<Rightarrow> string" where
  "get_submit_command submit_script = ''ketchup -t submit '' @ submit_script"

text \<open>\<^verbatim>\<open>_get_kill_command(jobid)\<close>.\<close>

definition get_kill_command :: "string \<Rightarrow> string" where
  "get_kill_command jobid = ''ketchup -t cancel '' @ jobid"

subsection \<open>Output parsers\<close>

text \<open>The filter of the list comprehension in \<^verbatim>\<open>_parse_joblist_output\<close>.\<close>

definition divider :: string where
  "divider = replicate 42 (CHR ''='')"

definition is_job_line :: "string \<Rightarrow> bool" where
  "is_job_line l \<longleftrightarrow> l \<noteq> [] \<and> \<not> contains ''jobid'' l \<and> \<not> contains divider l"

definition jobdata_raw :: "string \<Rightarrow> string list list" where
  "jobdata_raw stdout = map split (filter is_job_line (splitlines stdout))"

text \<open>
  The body of the loop, for one token list: \<^verbatim>\<open>job[0]\<close> and \<^verbatim>\<open>job[1]\<close> are read before
  the length is looked at, and raise \<^verbatim>\<open>IndexError\<close> on a shorter list.
\<close>

definition index_msg :: string where
  "index_msg = ''list index out of range''"

definition columns_msg :: string where
  "columns_msg = ''More than 3 columns returned by ketchup -t status queue''"

fun job_info_of :: "string list \<Rightarrow> error + JobInfo" where
  "job_info_of [] = Inl (IndexError index_msg)"
| "job_info_of [a] = Inl (IndexError index_msg)"
| "job_info_of (a # b # rest) =
     (if length (a # b # rest) = 2
      then Inr \<lparr>job_id = a, job_state = map_status b, pipeline = None,
                raw_data = a # b # rest\<rparr>
      else if length (a # b # rest) = 3
      then Inr \<lparr>job_id = a, job_state = map_status b, pipeline = Some (hd rest),
                raw_data = a # b # rest\<rparr>
      else Inl (ValueError columns_msg))"

text \<open>The loop: the records in order, or the first exception.\<close>

fun job_list_of :: "string list list \<Rightarrow> error + JobInfo list" where
  "job_list_of [] = Inr []"
| "job_list_of (job # jobs) =
     (case job_info_of job of
        Inl e \<Rightarrow> Inl e
      | Inr this_job \<Rightarrow>
          (case job_list_of jobs of
             Inl e \<Rightarrow> Inl e
           | Inr job_list \<Rightarrow> Inr (this_job # job_list)))"

text \<open>\<^verbatim>\<open>_parse_joblist_output(retval, stdout, stderr)\<close>.\<close>

definition parse_joblist_output :: "int \<Rightarrow> string \<Rightarrow> string \<Rightarrow> error + JobInfo list" where
  "parse_joblist_output retval stdout stderr =
     (if retval \<noteq> 0
      then Inl (SchedulerError
             (''kethup returned exit code '' @ str_int retval
                @ '' (_parse_joblist_output function)''
                @ ''stdout='' @ [squote] @ strip stdout @ [squote]
                @ ''stderr='' @ [squote] @ strip stderr @ [squote]))
      else job_list_of (jobdata_raw stdout))"

text \<open>The loop of \<^verbatim>\<open>_parse_submit_output\<close>: the first line that matches wins.\<close>

fun first_jobid :: "string list \<Rightarrow> string option" where
  "first_jobid [] = None"
| "first_jobid (line # lines) =
     (case TOMATO_SUBMITTED_REGEXP (strip line) of
        Some jobid \<Rightarrow> Some jobid
      | None \<Rightarrow> first_jobid lines)"

definition no_jobid_msg :: string where
  "no_jobid_msg =
     ''Error during submission, could not retrieve the jobID from ketchup output; see log for more info.''"

text \<open>\<^verbatim>\<open>_parse_submit_output(retval, stdout, stderr)\<close>.\<close>

definition parse_submit_output :: "int \<Rightarrow> string \<Rightarrow> string \<Rightarrow> error + string" where
  "parse_submit_output retval stdout stderr =
     (if retval \<noteq> 0
      then Inl (SchedulerError
             (''Error during submission, retval='' @ str_int retval
                @ ''; stdout='' @ stdout @ ''; stderr='' @ stderr))
      else (case first_jobid (split_newline stdout) of
              Some jobid \<Rightarrow> Inr jobid
            | None \<Rightarrow> Inl (SchedulerError no_jobid_msg)))"

text \<open>\<^verbatim>\<open>_parse_kill_output(retval, stdout, stderr)\<close>: no path raises.\<close>

definition parse_kill_output :: "int \<Rightarrow> string \<Rightarrow> string \<Rightarrow> bool" where
  "parse_kill_output retval stdout stderr = (if retval \<noteq> 0 then False else True)"

section \<open>Properties\<close>

subsection \<open>The status table\<close>

text \<open>
  C5: the status mapping is a total function: each of the six tokens of the table has its
  state (the queued tokens \<^verbatim>\<open>QUEUED\<close>, the running token \<^verbatim>\<open>RUNNING\<close>, the completed
  tokens \<^verbatim>\<open>DONE\<close>), and every other string is \<^verbatim>\<open>UNDETERMINED\<close>; no input raises.
\<close>

theorem map_status_total:
  "map_status ''q'' = QUEUED \<and> map_status ''qw'' = QUEUED \<and> map_status ''r'' = RUNNING
   \<and> map_status ''c'' = DONE \<and> map_status ''ce'' = DONE \<and> map_status ''cd'' = DONE
   \<and> (token \<notin> {''q'', ''qw'', ''r'', ''c'', ''ce'', ''cd''}
        \<longrightarrow> map_status token = UNDETERMINED)"
  by (simp add: map_status_def MAP_STATUS_TOMATO_def)

theorem map_status_total_witness:
  "''running'' \<notin> {''q'', ''qw'', ''r'', ''c'', ''ce'', ''cd''}
   \<and> map_status ''running'' = UNDETERMINED \<and> map_status ''qw'' = QUEUED"
  using map_status_total [of "''running''"] by simp

subsection \<open>The command builders\<close>

text \<open>
  C2: every command built from a job id should hold the escaped id. The kill command
  holds the id as it came: for the id \<^verbatim>\<open>7; reboot\<close> it is
  \<^verbatim>\<open>ketchup -t cancel 7; reboot\<close>, which differs from the command with the escaped id,
  while the detailed-info builder does escape the same id.
\<close>

theorem get_kill_command_raw:
  "get_kill_command ''7; reboot'' = ''ketchup -t cancel 7; reboot''
   \<and> get_kill_command ''7; reboot'' \<noteq> ''ketchup -t cancel '' @ escape_for_bash ''7; reboot''
   \<and> get_detailed_job_info_command escape_for_bash ''7; reboot''
       = ''ketchup -t status '' @ escape_for_bash ''7; reboot''"
  by (simp add: get_kill_command_def get_detailed_job_info_command_def
        escape_for_bash_def squote_def)

text \<open>
  C7: without a user, the joblist builder raises \<^verbatim>\<open>FeatureNotAvailable\<close> for every list
  of two or more job ids, returns the full-queue command for an empty list and for
  \<^verbatim>\<open>None\<close>, and returns the single-job command with the escaped id for a list of one id.
\<close>

theorem get_joblist_command_cases:
  "(2 \<le> length js \<longrightarrow> get_joblist_command esc (JobsList js) None
        = Inl (FeatureNotAvailable ''ketchup status supports only one job per time''))
   \<and> get_joblist_command esc (JobsList []) None = Inr ''ketchup -t status queue''
   \<and> get_joblist_command esc JobsNone None = Inr ''ketchup -t status queue''
   \<and> get_joblist_command esc (JobsList [j]) None = Inr (''ketchup -t status '' @ esc j)"
  by (auto simp add: get_joblist_command_def Let_def)

theorem get_joblist_command_cases_witness:
  "2 \<le> length [''7'', ''8'']
   \<and> get_joblist_command escape_for_bash (JobsList [''7'', ''8'']) None
        = Inl (FeatureNotAvailable ''ketchup status supports only one job per time'')
   \<and> get_joblist_command escape_for_bash (JobsList [''7'']) None
        = Inr (''ketchup -t status '' @ [squote] @ ''7'' @ [squote])"
  using get_joblist_command_cases [of "[''7'', ''8'']" escape_for_bash "''7''"]
  by (simp add: escape_for_bash_def squote_def)

text \<open>
  C10: a bare string should be taken as one job id. The length test comes before the
  string branch and counts the characters of the string: the bare string \<^verbatim>\<open>12\<close> is
  rejected, where the list holding \<^verbatim>\<open>12\<close> and the bare string \<^verbatim>\<open>7\<close> give the
  single-job command.
\<close>

theorem get_joblist_command_bare_string:
  "get_joblist_command esc (JobsStr ''12'') None
     = Inl (FeatureNotAvailable ''ketchup status supports only one job per time'')
   \<and> get_joblist_command esc (JobsList [''12'']) None = Inr (''ketchup -t status '' @ esc ''12'')
   \<and> get_joblist_command esc (JobsStr ''7'') None = Inr (''ketchup -t status '' @ esc ''7'')"
  by (simp add: get_joblist_command_def Let_def)

subsection \<open>The kill output\<close>

text \<open>
  C8: for every exit code other than 0 the kill parser returns \<^verbatim>\<open>False\<close>, and for exit
  code 0 it returns \<^verbatim>\<open>True\<close>, whatever stdout and stderr hold.
\<close>

theorem parse_kill_output_bool:
  "(retval \<noteq> 0 \<longrightarrow> parse_kill_output retval stdout stderr = False)
   \<and> parse_kill_output 0 stdout stderr = True"
  by (simp add: parse_kill_output_def)

theorem parse_kill_output_bool_witness:
  "(1::int) \<noteq> 0 \<and> parse_kill_output 1 ''job cancelled'' ''warning'' = False
   \<and> parse_kill_output 0 ''job cancelled'' ''warning'' = True"
  using parse_kill_output_bool [of 1 "''job cancelled''" "''warning''"] by simp

subsection \<open>The job list\<close>

text \<open>A line without a line boundary, closed by a newline, is the first line.\<close>

lemma splitlines_from_line:
  assumes "\<forall>c\<in>set l. \<not> is_linebreak c"
  shows "splitlines_from acc (l @ newline # rest) = (rev acc @ l) # splitlines_from [] rest"
  using assms
proof (induction l arbitrary: acc)
  case Nil
  show ?case
    by (cases rest) (simp_all add: is_linebreak_def newline_def carriage_return_def)
next
  case (Cons c l)
  obtain d cs where dcs: "l @ newline # rest = d # cs"
    by (cases l) auto
  have c: "\<not> is_linebreak c" and l: "\<forall>x\<in>set l. \<not> is_linebreak x"
    using Cons.prems by auto
  have "c \<noteq> carriage_return"
    using c by (auto simp add: is_linebreak_def carriage_return_def)
  then have "splitlines_from acc ((c # l) @ newline # rest)
               = splitlines_from (c # acc) (l @ newline # rest)"
    using c dcs by simp
  also have "\<dots> = (rev (c # acc) @ l) # splitlines_from [] rest"
    using Cons.IH [OF l] .
  finally show ?case by simp
qed

lemma splitlines_line:
  "\<forall>c\<in>set l. \<not> is_linebreak c \<Longrightarrow> splitlines (l @ newline # rest) = l # splitlines rest"
  by (simp add: splitlines_def splitlines_from_line)

lemma two_jobs_lines:
  "splitlines ''7 r pipelineA\<newline>8 c\<newline>'' = [''7 r pipelineA'', ''8 c'']"
  by code_simp

lemma two_jobs_records:
  "job_list_of (map split (filter is_job_line [''7 r pipelineA'', ''8 c'']))
     = Inr [\<lparr>job_id = ''7'', job_state = RUNNING, pipeline = Some ''pipelineA'',
              raw_data = [''7'', ''r'', ''pipelineA'']\<rparr>,
            \<lparr>job_id = ''8'', job_state = DONE, pipeline = None, raw_data = [''8'', ''c'']\<rparr>]"
  by code_simp

lemma header_ok: "contains ''jobid'' ''jobid status pipeline''"
  by code_simp

lemma divider_ok: "contains divider divider"
  by code_simp

lemma header_no_break: "\<forall>c\<in>set ''jobid status pipeline''. \<not> is_linebreak c"
  by code_simp

lemma divider_no_break: "\<forall>c\<in>set divider. \<not> is_linebreak c"
  by code_simp

lemma short_divider_output:
  "parse_joblist_output 0
     ''jobid status pipeline\<newline>===\<newline>7 r pipelineA\<newline>8 c\<newline>'' ''''
     = Inl (IndexError index_msg)"
  by code_simp

text \<open>
  C1 as stated: the stdout with the divider \<^verbatim>\<open>===\<close> should give the records of the jobs
  7 and 8. The filter drops only lines that hold the divider of 42 characters, so the line
  \<^verbatim>\<open>===\<close> is taken as a job line of one token, and the call ends in \<^verbatim>\<open>IndexError\<close>.
\<close>

theorem parse_joblist_output_short_divider:
  "parse_joblist_output 0
     ''jobid status pipeline\<newline>===\<newline>7 r pipelineA\<newline>8 c\<newline>'' ''''
     = Inl (IndexError index_msg)
   \<and> parse_joblist_output 0
     ''jobid status pipeline\<newline>===\<newline>7 r pipelineA\<newline>8 c\<newline>'' ''''
     \<noteq> Inr [\<lparr>job_id = ''7'', job_state = RUNNING, pipeline = Some ''pipelineA'',
               raw_data = [''7'', ''r'', ''pipelineA'']\<rparr>,
             \<lparr>job_id = ''8'', job_state = DONE, pipeline = None, raw_data = [''8'', ''c'']\<rparr>]"
  by (simp only: short_divider_output) simp

text \<open>
  C1, amended: for a header line that holds \<^verbatim>\<open>jobid\<close> and a divider line that holds the
  run of 42 \<^verbatim>\<open>=\<close> characters, followed by the lines \<^verbatim>\<open>7 r pipelineA\<close> and \<^verbatim>\<open>8 c\<close>,
  with exit code 0 and any stderr, the parser returns exactly two records in the order of
  the input: job 7, \<^verbatim>\<open>RUNNING\<close>, pipeline \<^verbatim>\<open>pipelineA\<close>, then job 8, \<^verbatim>\<open>DONE\<close>, no
  pipeline. The header and the divider are dropped.
\<close>

theorem parse_joblist_output_scenario:
  assumes "contains ''jobid'' header" and "contains divider dline"
    and "\<forall>c\<in>set header. \<not> is_linebreak c" and "\<forall>c\<in>set dline. \<not> is_linebreak c"
  shows "parse_joblist_output 0
           (header @ newline # dline @ newline # ''7 r pipelineA\<newline>8 c\<newline>'') stderr
     = Inr [\<lparr>job_id = ''7'', job_state = RUNNING, pipeline = Some ''pipelineA'',
              raw_data = [''7'', ''r'', ''pipelineA'']\<rparr>,
            \<lparr>job_id = ''8'', job_state = DONE, pipeline = None, raw_data = [''8'', ''c'']\<rparr>]"
proof -
  have "splitlines (header @ newline # dline @ newline # ''7 r pipelineA\<newline>8 c\<newline>'')
          = [header, dline, ''7 r pipelineA'', ''8 c'']"
    using assms(3,4) by (simp only: splitlines_line two_jobs_lines)
  moreover have "\<not> is_job_line header" "\<not> is_job_line dline"
    using assms(1,2) by (simp_all add: is_job_line_def)
  ultimately have "jobdata_raw
      (header @ newline # dline @ newline # ''7 r pipelineA\<newline>8 c\<newline>'')
        = map split (filter is_job_line [''7 r pipelineA'', ''8 c''])"
    by (simp add: jobdata_raw_def)
  then show ?thesis
    by (simp only: parse_joblist_output_def two_jobs_records) simp
qed

theorem parse_joblist_output_scenario_witness:
  "contains ''jobid'' ''jobid status pipeline'' \<and> contains divider divider
   \<and> list_all (\<lambda>c. \<not> is_linebreak c) ''jobid status pipeline''
   \<and> list_all (\<lambda>c. \<not> is_linebreak c) divider
   \<and> parse_joblist_output 0
        (''jobid status pipeline'' @ newline # divider @ newline
           # ''7 r pipelineA\<newline>8 c\<newline>'') ''''
     = Inr [\<lparr>job_id = ''7'', job_state = RUNNING, pipeline = Some ''pipelineA'',
              raw_data = [''7'', ''r'', ''pipelineA'']\<rparr>,
            \<lparr>job_id = ''8'', job_state = DONE, pipeline = None, raw_data = [''8'', ''c'']\<rparr>]"
  using parse_joblist_output_scenario
          [OF header_ok divider_ok header_no_break divider_no_break, of "''''"]
        header_ok divider_ok header_no_break divider_no_break
  by (simp add: list_all_iff)

text \<open>The tokens of \<^verbatim>\<open>split\<close> are not empty, and a record takes its id from them.\<close>

lemma split_from_nonempty: "t \<in> set (split_from acc s) \<Longrightarrow> t \<noteq> []"
  by (induction s arbitrary: acc) (auto split: if_splits)

lemma job_info_of_job_id: "job_info_of job = Inr info \<Longrightarrow> job_id info \<in> set job"
  by (cases job rule: job_info_of.cases) (auto split: if_splits)

lemma job_list_of_job_ids:
  "job_list_of jobs = Inr infos \<Longrightarrow> info \<in> set infos
     \<Longrightarrow> \<exists>job\<in>set jobs. job_id info \<in> set job"
proof (induction jobs arbitrary: infos)
  case Nil
  then show ?case by simp
next
  case (Cons job jobs)
  then show ?case
    by (auto split: sum.splits dest: job_info_of_job_id)
qed

lemma one_job_output:
  "parse_joblist_output 0 ''7 r pipelineA\<newline>'' ''''
     = Inr [\<lparr>job_id = ''7'', job_state = RUNNING, pipeline = Some ''pipelineA'',
              raw_data = [''7'', ''r'', ''pipelineA'']\<rparr>]"
  by code_simp

text \<open>
  C9: every record that the job list parser returns, on any exit code, stdout and stderr,
  has a job id that is not empty.
\<close>

theorem parse_joblist_output_job_id_nonempty:
  assumes "parse_joblist_output retval stdout stderr = Inr infos" and "info \<in> set infos"
  shows "job_id info \<noteq> []"
proof -
  have "job_list_of (jobdata_raw stdout) = Inr infos"
    using assms(1) by (simp add: parse_joblist_output_def split: if_splits)
  then obtain job where "job \<in> set (jobdata_raw stdout)" and "job_id info \<in> set job"
    using assms(2) job_list_of_job_ids by blast
  then show ?thesis
    by (auto simp add: jobdata_raw_def split_def dest: split_from_nonempty)
qed

theorem parse_joblist_output_job_id_nonempty_witness:
  "parse_joblist_output 0 ''7 r pipelineA\<newline>'' ''''
     = Inr [\<lparr>job_id = ''7'', job_state = RUNNING, pipeline = Some ''pipelineA'',
              raw_data = [''7'', ''r'', ''pipelineA'']\<rparr>]
   \<and> job_id \<lparr>job_id = ''7'', job_state = RUNNING, pipeline = Some ''pipelineA'',
              raw_data = [''7'', ''r'', ''pipelineA'']\<rparr> \<noteq> []"
  using parse_joblist_output_job_id_nonempty [OF one_job_output, of
          "\<lparr>job_id = ''7'', job_state = RUNNING, pipeline = Some ''pipelineA'',
              raw_data = [''7'', ''r'', ''pipelineA'']\<rparr>"]
        one_job_output
  by simp

text \<open>
  C3: a job line whose token count is neither 2 nor 3 should end in the error for
  malformed output. A line of one token ends in \<^verbatim>\<open>IndexError\<close>: \<^verbatim>\<open>job[1]\<close> is read
  before the number of columns is tested. A line of four tokens does reach the test and
  ends in the \<^verbatim>\<open>ValueError\<close> of its last branch.
\<close>

theorem parse_joblist_output_one_token:
  "parse_joblist_output 0 ''7\<newline>'' '''' = Inl (IndexError index_msg)
   \<and> parse_joblist_output 0 ''7 r pipelineA extra\<newline>'' '''' = Inl (ValueError columns_msg)"
  by code_simp

subsection \<open>The submission output\<close>

text \<open>What a successful match of each pattern says about the text it was run on.\<close>

lemma re_char_SomeD:
  "re_char P k s = Some r \<Longrightarrow> \<exists>c cs. s = c # cs \<and> P c \<and> k cs = Some r"
  by (cases s) (auto simp add: re_char_def split: if_splits)

lemma re_lit_SomeD: "re_lit l k s = Some r \<Longrightarrow> \<exists>t. s = l @ t \<and> k t = Some r"
proof (induction l arbitrary: s)
  case Nil
  then show ?case by simp
next
  case (Cons c l)
  from Cons.prems obtain cs where "s = c # cs" and "re_lit l k cs = Some r"
    by (auto dest: re_char_SomeD)
  with Cons.IH show ?case by fastforce
qed

lemma re_lit_append: "re_lit l k (l @ t) = k t"
  by (induction l) (simp_all add: re_char_def)

lemma re_star_SomeD:
  "re_star P k s = Some r \<Longrightarrow> \<exists>u t. s = u @ t \<and> list_all P u \<and> k t = Some r"
proof (induction s)
  case Nil
  then show ?case by simp
next
  case (Cons c cs)
  show ?case
  proof (cases "P c \<and> re_star P k cs \<noteq> None")
    case True
    with Cons.prems have "re_star P k cs = Some r" by auto
    with Cons.IH obtain u t where "cs = u @ t" "list_all P u" "k t = Some r" by blast
    with True have "c # cs = (c # u) @ t \<and> list_all P (c # u) \<and> k t = Some r" by simp
    then show ?thesis by blast
  next
    case False
    with Cons.prems have "k (c # cs) = Some r" by (auto split: if_splits)
    then have "c # cs = [] @ (c # cs) \<and> list_all P [] \<and> k (c # cs) = Some r" by simp
    then show ?thesis by blast
  qed
qed

lemma re_plus_SomeD:
  assumes "re_plus P k s = Some r"
  shows "\<exists>u t. s = u @ t \<and> u \<noteq> [] \<and> list_all P u \<and> k t = Some r"
proof -
  from assms obtain c cs where s: "s = c # cs" and c: "P c" and "re_star P k cs = Some r"
    unfolding re_plus_def by (blast dest: re_char_SomeD)
  then obtain u t where "cs = u @ t" "list_all P u" "k t = Some r"
    by (blast dest: re_star_SomeD)
  with s c have "s = (c # u) @ t \<and> c # u \<noteq> [] \<and> list_all P (c # u) \<and> k t = Some r" by simp
  then show ?thesis by blast
qed

text \<open>Where the continuation rejects every text that starts inside the class, the star is
  deterministic.\<close>

lemma re_star_dropWhile:
  assumes "\<And>c cs. P c \<Longrightarrow> k (c # cs) = None"
  shows "re_star P k s = k (dropWhile P s)"
  by (induction s) (auto simp add: assms split: option.splits)

lemma dropWhile_stop: "t = [] \<or> \<not> P (hd t) \<Longrightarrow> dropWhile P t = t"
  by (cases t) auto

lemma takeWhile_stop: "t = [] \<or> \<not> P (hd t) \<Longrightarrow> takeWhile P t = []"
  by (cases t) auto

lemma re_star_total: "re_star P (\<lambda>rest. Some (g rest)) s = Some (g (dropWhile P s))"
  by (induction s) simp_all

lemma take_length_dropWhile: "take (length xs - length (dropWhile P xs)) xs = takeWhile P xs"
proof -
  have "length xs - length (dropWhile P xs) = length (takeWhile P xs)"
    by (metis add_diff_cancel_right' length_append takeWhile_dropWhile_id)
  then show ?thesis
    by (metis append_eq_conv_conj takeWhile_dropWhile_id)
qed

lemma digits_group:
  "re_group (re_plus py_isdigit) (\<lambda>jobid rest. Some jobid) s
     = (case s of [] \<Rightarrow> None
        | c # cs \<Rightarrow> if py_isdigit c then Some (c # takeWhile py_isdigit cs) else None)"
proof (cases s)
  case Nil
  then show ?thesis by (simp add: re_group_def re_plus_def re_char_def)
next
  case (Cons c cs)
  have "length (dropWhile py_isdigit cs) \<le> length cs"
    by (rule length_dropWhile_le)
  then have "take (Suc (length cs) - length (dropWhile py_isdigit cs)) (c # cs)
               = c # takeWhile py_isdigit cs"
    by (simp add: Suc_diff_le take_length_dropWhile)
  with Cons show ?thesis
    by (simp add: re_group_def re_plus_def re_char_def re_star_total)
qed

lemma digit_not_space: "py_isdigit c \<Longrightarrow> \<not> py_isspace c"
  by (auto simp add: py_isdigit_def py_isspace_def)

lemma jobid_part_SomeD:
  assumes "jobid_part s = Some jobid"
  shows "\<exists>ws1 ws2 rest. s = ''jobid'' @ ws1 @ ''='' @ ws2 @ jobid @ rest
           \<and> ws1 \<noteq> [] \<and> list_all py_isspace ws1 \<and> ws2 \<noteq> [] \<and> list_all py_isspace ws2
           \<and> jobid \<noteq> [] \<and> list_all py_isdigit jobid
           \<and> (rest = [] \<or> \<not> py_isdigit (hd rest))"
proof -
  let ?g = "re_group (re_plus py_isdigit) (\<lambda>jobid rest. Some jobid)"
  from assms obtain s1 where s1: "s = ''jobid'' @ s1"
    and m1: "re_plus py_isspace (re_lit ''='' (re_plus py_isspace ?g)) s1 = Some jobid"
    unfolding jobid_part_def by (blast dest: re_lit_SomeD)
  from m1 obtain ws1 s2 where s2: "s1 = ws1 @ s2" "ws1 \<noteq> []" "list_all py_isspace ws1"
    and m2: "re_lit ''='' (re_plus py_isspace ?g) s2 = Some jobid"
    by (blast dest: re_plus_SomeD)
  from m2 obtain s3 where s3: "s2 = ''='' @ s3" and m3: "re_plus py_isspace ?g s3 = Some jobid"
    by (blast dest: re_lit_SomeD)
  from m3 obtain ws2 s4 where s4: "s3 = ws2 @ s4" "ws2 \<noteq> []" "list_all py_isspace ws2"
    and m4: "?g s4 = Some jobid"
    by (blast dest: re_plus_SomeD)
  from m4 obtain c cs where s5: "s4 = c # cs" "py_isdigit c"
    and j: "jobid = c # takeWhile py_isdigit cs"
    by (auto simp add: digits_group split: list.splits if_splits)
  have "s4 = jobid @ dropWhile py_isdigit cs"
    using s5 j by simp
  moreover have "list_all py_isdigit jobid"
    using s5 j by (auto simp add: list_all_iff dest: set_takeWhileD)
  moreover have "dropWhile py_isdigit cs = [] \<or> \<not> py_isdigit (hd (dropWhile py_isdigit cs))"
    using hd_dropWhile [of py_isdigit cs] by blast
  ultimately show ?thesis
    using s1 s2 s3 s4 j by blast
qed

lemma re_plus_class:
  assumes "u \<noteq> []" and "list_all P u" and "\<And>c cs. P c \<Longrightarrow> k (c # cs) = None"
    and "t = [] \<or> \<not> P (hd t)"
  shows "re_plus P k (u @ t) = k t"
proof -
  have "dropWhile P (u @ t) = t"
    using assms(2,4) by (induction u) (simp_all add: dropWhile_stop)
  moreover obtain c u' where "u = c # u'" "P c"
    using assms(1,2) by (cases u) auto
  ultimately show ?thesis
    using assms(3) by (simp add: re_plus_def re_char_def re_star_dropWhile)
qed

lemma jobid_part_SomeI:
  assumes "ws1 \<noteq> []" "list_all py_isspace ws1" "ws2 \<noteq> []" "list_all py_isspace ws2"
    and "jobid \<noteq> []" "list_all py_isdigit jobid" "rest = [] \<or> \<not> py_isdigit (hd rest)"
  shows "jobid_part (''jobid'' @ ws1 @ ''='' @ ws2 @ jobid @ rest) = Some jobid"
proof -
  let ?g = "re_group (re_plus py_isdigit) (\<lambda>jobid rest. Some jobid)"
  obtain d ds where j: "jobid = d # ds" "py_isdigit d" "list_all py_isdigit ds"
    using assms(5,6) by (cases jobid) auto
  have "takeWhile py_isdigit (ds @ rest) = ds"
    using j(3) assms(7) by (induction ds) (simp_all add: takeWhile_stop)
  then have g: "?g (jobid @ rest) = Some jobid"
    using j by (simp add: digits_group)
  have k2: "\<And>c cs. py_isspace c \<Longrightarrow> ?g (c # cs) = None"
    using digit_not_space by (auto simp add: digits_group)
  have "\<not> py_isspace (hd (jobid @ rest))"
    using j digit_not_space by simp
  then have p2: "re_plus py_isspace ?g (ws2 @ jobid @ rest) = Some jobid"
    using re_plus_class [of ws2 py_isspace ?g "jobid @ rest"] assms(3,4) k2 g by simp
  have k1: "\<And>c cs. py_isspace c \<Longrightarrow> re_lit ''='' (re_plus py_isspace ?g) (c # cs) = None"
    by (auto simp add: re_char_def py_isspace_def)
  have "\<not> py_isspace (hd (''='' @ ws2 @ jobid @ rest))"
    by (simp add: py_isspace_def)
  then have "re_plus py_isspace (re_lit ''='' (re_plus py_isspace ?g))
               (ws1 @ ''='' @ ws2 @ jobid @ rest)
             = re_lit ''='' (re_plus py_isspace ?g) (''='' @ ws2 @ jobid @ rest)"
    using re_plus_class [of ws1 py_isspace "re_lit ''='' (re_plus py_isspace ?g)"
            "''='' @ ws2 @ jobid @ rest"] assms(1,2) k1 by blast
  also have "\<dots> = Some jobid"
    using p2 by (simp only: re_lit_append)
  finally show ?thesis
    unfolding jobid_part_def by (simp only: re_lit_append)
qed

lemma prefix_part_SomeD:
  assumes "prefix_part k s = Some r"
  shows "\<exists>p w t. s = p @ '':'' @ w @ t \<and> list_all re_dot p \<and> list_all py_isspace w
           \<and> k t = Some r"
proof -
  from assms obtain p s1 where "s = p @ s1" "list_all re_dot p"
    and "re_lit '':'' (re_star py_isspace k) s1 = Some r"
    unfolding prefix_part_def by (blast dest: re_star_SomeD)
  moreover then obtain s2 where "s1 = '':'' @ s2" "re_star py_isspace k s2 = Some r"
    by (blast dest: re_lit_SomeD)
  moreover then obtain w t where "s2 = w @ t" "list_all py_isspace w" "k t = Some r"
    by (blast dest: re_star_SomeD)
  ultimately show ?thesis by blast
qed

lemma regexp_SomeD:
  assumes "TOMATO_SUBMITTED_REGEXP s = Some jobid"
  shows "jobid_part s = Some jobid
         \<or> (\<exists>p w t. s = p @ '':'' @ w @ t \<and> list_all re_dot p \<and> list_all py_isspace w
               \<and> jobid_part t = Some jobid)"
  using assms unfolding TOMATO_SUBMITTED_REGEXP_def re_opt_def
  by (auto split: option.splits dest: prefix_part_SomeD)

lemma regexp_no_colon:
  assumes "CHR '':'' \<notin> set s"
  shows "TOMATO_SUBMITTED_REGEXP s = jobid_part s"
proof -
  have "prefix_part jobid_part s = None"
  proof (rule ccontr)
    assume "prefix_part jobid_part s \<noteq> None"
    then obtain r where "prefix_part jobid_part s = Some r" by blast
    then obtain p w t where "s = p @ '':'' @ w @ t"
      by (blast dest: prefix_part_SomeD)
    with assms show False by simp
  qed
  then show ?thesis
    by (simp add: TOMATO_SUBMITTED_REGEXP_def re_opt_def)
qed

text \<open>
  The greedy star of the prefix ends at the last colon after which the rest matches; so a
  text of the pattern's shape with no colon after the digits is matched.
\<close>

lemma re_star_here:
  assumes "\<And>v t'. t = v @ t' \<Longrightarrow> v \<noteq> [] \<Longrightarrow> k t' = None"
  shows "re_star P k t = k t"
  using assms
proof (induction t)
  case Nil
  show ?case by simp
next
  case (Cons c cs)
  have "re_star P k cs = k cs"
  proof (rule Cons.IH)
    fix v t'
    assume "cs = v @ t'" and "v \<noteq> []"
    then have "c # cs = (c # v) @ t'" by simp
    then show "k t' = None" by (rule Cons.prems) simp
  qed
  moreover have "k cs = None"
    using Cons.prems [of "[c]" cs] by simp
  ultimately show ?case by simp
qed

lemma re_star_last:
  assumes "list_all P u" and "k t = Some r"
    and "\<And>v t'. t = v @ t' \<Longrightarrow> v \<noteq> [] \<Longrightarrow> k t' = None"
  shows "re_star P k (u @ t) = Some r"
  using assms(1)
proof (induction u)
  case Nil
  show ?case using re_star_here [of t k P] assms(2,3) by simp
next
  case (Cons c u)
  then show ?case by simp
qed

lemma spaces_no_colon: "list_all py_isspace w \<Longrightarrow> CHR '':'' \<notin> set w"
proof
  assume "list_all py_isspace w" and "CHR '':'' \<in> set w"
  then have "py_isspace (CHR '':'')" by (simp add: list_all_iff)
  then show False by (simp add: py_isspace_def)
qed

lemma digits_no_colon: "list_all py_isdigit ds \<Longrightarrow> CHR '':'' \<notin> set ds"
proof
  assume "list_all py_isdigit ds" and "CHR '':'' \<in> set ds"
  then have "py_isdigit (CHR '':'')" by (simp add: list_all_iff)
  then show False by (simp add: py_isdigit_def)
qed

lemma jobid_part_space: "py_isspace c \<Longrightarrow> jobid_part (c # cs) = None"
  by (auto simp add: jobid_part_def re_char_def py_isspace_def)

lemma prefix_part_last_colon:
  assumes "list_all re_dot p" and "list_all py_isspace w" and "jobid_part t = Some r"
    and "CHR '':'' \<notin> set t"
  shows "prefix_part jobid_part (p @ '':'' @ w @ t) = Some r"
proof -
  let ?k = "re_lit '':'' (re_star py_isspace jobid_part)"
  have "t \<noteq> []"
    using assms(3) by (auto simp add: jobid_part_def re_char_def)
  moreover have "\<not> py_isspace (hd t)"
    using assms(3) jobid_part_space [of "hd t" "tl t"] \<open>t \<noteq> []\<close> by auto
  ultimately have "dropWhile py_isspace (w @ t) = t"
    using assms(2) by (induction w) (simp_all add: dropWhile_stop)
  moreover have "re_star py_isspace jobid_part (w @ t)
                   = jobid_part (dropWhile py_isspace (w @ t))"
    by (rule re_star_dropWhile) (rule jobid_part_space)
  ultimately have here: "?k ('':'' @ w @ t) = Some r"
    using assms(3) by (simp add: re_char_def)
  have later: "?k t' = None" if eq: "'':'' @ w @ t = v @ t'" and ne: "v \<noteq> []" for v t'
  proof (rule ccontr)
    assume "?k t' \<noteq> None"
    then obtain x where "?k t' = Some x" by blast
    then obtain t'' where "t' = '':'' @ t''"
      by (blast dest: re_lit_SomeD)
    moreover obtain v' where "v = CHR '':'' # v'"
      using eq ne by (cases v) auto
    ultimately have "w @ t = v' @ CHR '':'' # t''"
      using eq by simp
    then have "CHR '':'' \<in> set (w @ t)"
      by simp
    then show False
      using assms(4) spaces_no_colon [OF assms(2)] by simp
  qed
  show ?thesis
    unfolding prefix_part_def
    using re_star_last [of re_dot p ?k "'':'' @ w @ t" r, OF assms(1) here later] by simp
qed

lemma regexp_matches:
  assumes "ws1 \<noteq> []" "list_all py_isspace ws1" "ws2 \<noteq> []" "list_all py_isspace ws2"
    and "digits \<noteq> []" "list_all py_isdigit digits"
    and "rest = [] \<or> \<not> py_isdigit (hd rest)" and "CHR '':'' \<notin> set rest"
    and "pre = [] \<or> (\<exists>p w. pre = p @ '':'' @ w \<and> list_all re_dot p \<and> list_all py_isspace w)"
  shows "TOMATO_SUBMITTED_REGEXP (pre @ ''jobid'' @ ws1 @ ''='' @ ws2 @ digits @ rest)
           = Some digits"
proof -
  let ?t = "''jobid'' @ ws1 @ ''='' @ ws2 @ digits @ rest"
  have t: "jobid_part ?t = Some digits"
    using assms(1-7) by (rule jobid_part_SomeI)
  have no_colon: "CHR '':'' \<notin> set ?t"
    using assms(8) spaces_no_colon [OF assms(2)] spaces_no_colon [OF assms(4)]
      digits_no_colon [OF assms(6)] by simp
  from assms(9) show ?thesis
  proof
    assume "pre = []"
    then show ?thesis
      using t no_colon regexp_no_colon [of ?t] by simp
  next
    assume "\<exists>p w. pre = p @ '':'' @ w \<and> list_all re_dot p \<and> list_all py_isspace w"
    then obtain p w where pre: "pre = p @ '':'' @ w" "list_all re_dot p" "list_all py_isspace w"
      by blast
    have "prefix_part jobid_part (p @ '':'' @ w @ ?t) = Some digits"
      using pre(2,3) t no_colon by (rule prefix_part_last_colon)
    then show ?thesis
      using pre(1) by (simp add: TOMATO_SUBMITTED_REGEXP_def re_opt_def)
  qed
qed

text \<open>The pattern matches only texts of its shape, and the group is never empty.\<close>

lemma regexp_shape:
  assumes "TOMATO_SUBMITTED_REGEXP s = Some jobid"
  shows "\<exists>pre ws1 ws2 rest. s = pre @ ''jobid'' @ ws1 @ ''='' @ ws2 @ jobid @ rest
           \<and> (pre = [] \<or> (\<exists>p w. pre = p @ '':'' @ w \<and> list_all py_isspace w))
           \<and> ws1 \<noteq> [] \<and> list_all py_isspace ws1 \<and> ws2 \<noteq> [] \<and> list_all py_isspace ws2
           \<and> jobid \<noteq> [] \<and> list_all py_isdigit jobid
           \<and> (rest = [] \<or> \<not> py_isdigit (hd rest))"
proof -
  from regexp_SomeD [OF assms] consider
      (plain) "jobid_part s = Some jobid"
    | (prefixed) p w t where "s = p @ '':'' @ w @ t" "list_all py_isspace w"
        "jobid_part t = Some jobid"
    by blast
  then show ?thesis
  proof cases
    case plain
    from jobid_part_SomeD [OF plain] obtain ws1 ws2 rest where
      "s = [] @ ''jobid'' @ ws1 @ ''='' @ ws2 @ jobid @ rest"
      "ws1 \<noteq> []" "list_all py_isspace ws1" "ws2 \<noteq> []" "list_all py_isspace ws2"
      "jobid \<noteq> []" "list_all py_isdigit jobid" "rest = [] \<or> \<not> py_isdigit (hd rest)"
      by auto
    then show ?thesis by blast
  next
    case prefixed
    from jobid_part_SomeD [OF prefixed(3)] obtain ws1 ws2 rest where
      t: "t = ''jobid'' @ ws1 @ ''='' @ ws2 @ jobid @ rest"
      and rest: "ws1 \<noteq> []" "list_all py_isspace ws1" "ws2 \<noteq> []" "list_all py_isspace ws2"
      "jobid \<noteq> []" "list_all py_isdigit jobid" "rest = [] \<or> \<not> py_isdigit (hd rest)"
      by auto
    have "s = (p @ '':'' @ w) @ ''jobid'' @ ws1 @ ''='' @ ws2 @ jobid @ rest"
      using prefixed(1) t by simp
    moreover have "\<exists>p' w'. p @ '':'' @ w = p' @ '':'' @ w' \<and> list_all py_isspace w'"
      using prefixed(2) by blast
    ultimately show ?thesis
      using rest by blast
  qed
qed

lemma first_jobid_None:
  "\<forall>line\<in>set lines. TOMATO_SUBMITTED_REGEXP (strip line) = None \<Longrightarrow> first_jobid lines = None"
  by (induction lines) simp_all

lemma first_jobid_first:
  "\<forall>l\<in>set before. TOMATO_SUBMITTED_REGEXP (strip l) = None
     \<Longrightarrow> TOMATO_SUBMITTED_REGEXP (strip line) = Some jobid
     \<Longrightarrow> first_jobid (before @ line # after) = Some jobid"
  by (induction before) simp_all

lemma first_jobid_SomeD:
  "first_jobid lines = Some jobid
     \<Longrightarrow> \<exists>line\<in>set lines. TOMATO_SUBMITTED_REGEXP (strip line) = Some jobid"
  by (induction lines) (auto split: option.splits)

lemma regexp_nonempty: "TOMATO_SUBMITTED_REGEXP s = Some jobid \<Longrightarrow> jobid \<noteq> []"
  using regexp_shape by blast

text \<open>
  C6: where no piece of stdout between newlines matches the pattern, the submission parser
  raises the \<^verbatim>\<open>SchedulerError\<close> for a missing job id, also on exit code 0; and on no
  input at all does it return an empty job id.
\<close>

theorem parse_submit_output_no_jobid:
  "((\<forall>line\<in>set (split_newline stdout). TOMATO_SUBMITTED_REGEXP (strip line) = None)
      \<longrightarrow> parse_submit_output 0 stdout stderr = Inl (SchedulerError no_jobid_msg))
   \<and> parse_submit_output retval stdout stderr \<noteq> Inr []"
proof
  show "(\<forall>line\<in>set (split_newline stdout). TOMATO_SUBMITTED_REGEXP (strip line) = None)
      \<longrightarrow> parse_submit_output 0 stdout stderr = Inl (SchedulerError no_jobid_msg)"
    by (simp add: parse_submit_output_def first_jobid_None)
next
  show "parse_submit_output retval stdout stderr \<noteq> Inr []"
  proof
    assume "parse_submit_output retval stdout stderr = Inr []"
    then have "first_jobid (split_newline stdout) = Some []"
      by (simp add: parse_submit_output_def split: if_splits option.splits)
    then show False
      using first_jobid_SomeD regexp_nonempty by blast
  qed
qed

lemma no_match_lines:
  "\<forall>line\<in>set (split_newline ''job accepted\<newline>'').
     TOMATO_SUBMITTED_REGEXP (strip line) = None"
  by code_simp

theorem parse_submit_output_no_jobid_witness:
  "list_all (\<lambda>line. TOMATO_SUBMITTED_REGEXP (strip line) = None)
     (split_newline ''job accepted\<newline>'')
   \<and> parse_submit_output 0 ''job accepted\<newline>'' '''' = Inl (SchedulerError no_jobid_msg)"
  using parse_submit_output_no_jobid [of "''job accepted\<newline>''" "''''" 0] no_match_lines
  by (simp add: list_all_iff)

lemma unprefixed_output:
  "parse_submit_output 0 ''Submitting... jobid = 42\<newline>'' ''''
     = Inl (SchedulerError no_jobid_msg)"
  by code_simp

text \<open>
  C4 as stated: stdout holding only \<^verbatim>\<open>Submitting... jobid = 42\<close> should give the job id
  42. The pattern is anchored at the start of the line and its optional prefix must end in
  a colon, so this line does not match and the parser raises.
\<close>

theorem parse_submit_output_no_colon:
  "parse_submit_output 0 ''Submitting... jobid = 42\<newline>'' ''''
     = Inl (SchedulerError no_jobid_msg)
   \<and> parse_submit_output 0 ''Submitting... jobid = 42\<newline>'' '''' \<noteq> Inr ''42''"
  by (simp only: unprefixed_output) simp

text \<open>
  C4, amended: on exit code 0 the parser scans the pieces of stdout between newlines in
  order and returns the digit group of the first piece whose stripped text the pattern
  matches from its start. Such a text is an optional prefix ending in a colon and optional
  whitespace, then the lower-case word \<^verbatim>\<open>jobid\<close>, at least one whitespace character,
  \<^verbatim>\<open>=\<close>, at least one whitespace character, and the returned digits, which are a maximal
  run; the match is case-sensitive. Conversely every text of this shape, with any
  whitespace of one character or more on each side of \<^verbatim>\<open>=\<close>, a prefix free of newlines
  and no colon after the digits, is matched and gives its digits. For example
  \<^verbatim>\<open>Submitting...: jobid = 42\<close> gives 42.
\<close>

theorem parse_submit_output_first_match:
  "(split_newline stdout = before @ line # after
      \<and> (\<forall>l\<in>set before. TOMATO_SUBMITTED_REGEXP (strip l) = None)
      \<and> TOMATO_SUBMITTED_REGEXP (strip line) = Some jobid
    \<longrightarrow> parse_submit_output 0 stdout stderr = Inr jobid
        \<and> (\<exists>pre ws1 ws2 rest. strip line = pre @ ''jobid'' @ ws1 @ ''='' @ ws2 @ jobid @ rest
              \<and> (pre = [] \<or> (\<exists>p w. pre = p @ '':'' @ w \<and> list_all py_isspace w))
              \<and> ws1 \<noteq> [] \<and> list_all py_isspace ws1 \<and> ws2 \<noteq> [] \<and> list_all py_isspace ws2
              \<and> jobid \<noteq> [] \<and> list_all py_isdigit jobid
              \<and> (rest = [] \<or> \<not> py_isdigit (hd rest))))
   \<and> (spa \<noteq> [] \<and> list_all py_isspace spa \<and> spb \<noteq> [] \<and> list_all py_isspace spb
        \<and> digits \<noteq> [] \<and> list_all py_isdigit digits
        \<and> (tail = [] \<or> \<not> py_isdigit (hd tail)) \<and> CHR '':'' \<notin> set tail
        \<and> (head = [] \<or> (\<exists>p w. head = p @ '':'' @ w \<and> list_all re_dot p
                                  \<and> list_all py_isspace w))
    \<longrightarrow> TOMATO_SUBMITTED_REGEXP (head @ ''jobid'' @ spa @ ''='' @ spb @ digits @ tail)
          = Some digits)"
proof (intro conjI impI)
  assume a: "split_newline stdout = before @ line # after
      \<and> (\<forall>l\<in>set before. TOMATO_SUBMITTED_REGEXP (strip l) = None)
      \<and> TOMATO_SUBMITTED_REGEXP (strip line) = Some jobid"
  then have "first_jobid (split_newline stdout) = Some jobid"
    by (simp add: first_jobid_first)
  then show "parse_submit_output 0 stdout stderr = Inr jobid"
    by (simp add: parse_submit_output_def)
  from a have "TOMATO_SUBMITTED_REGEXP (strip line) = Some jobid"
    by simp
  then show "\<exists>pre ws1 ws2 rest. strip line = pre @ ''jobid'' @ ws1 @ ''='' @ ws2 @ jobid @ rest
              \<and> (pre = [] \<or> (\<exists>p w. pre = p @ '':'' @ w \<and> list_all py_isspace w))
              \<and> ws1 \<noteq> [] \<and> list_all py_isspace ws1 \<and> ws2 \<noteq> [] \<and> list_all py_isspace ws2
              \<and> jobid \<noteq> [] \<and> list_all py_isdigit jobid
              \<and> (rest = [] \<or> \<not> py_isdigit (hd rest))"
    by (rule regexp_shape)
next
  assume b: "spa \<noteq> [] \<and> list_all py_isspace spa \<and> spb \<noteq> [] \<and> list_all py_isspace spb
        \<and> digits \<noteq> [] \<and> list_all py_isdigit digits
        \<and> (tail = [] \<or> \<not> py_isdigit (hd tail)) \<and> CHR '':'' \<notin> set tail
        \<and> (head = [] \<or> (\<exists>p w. head = p @ '':'' @ w \<and> list_all re_dot p
                                  \<and> list_all py_isspace w))"
  show "TOMATO_SUBMITTED_REGEXP (head @ ''jobid'' @ spa @ ''='' @ spb @ digits @ tail)
          = Some digits"
    by (rule regexp_matches) (use b in blast)+
qed

lemma banner_lines:
  "split_newline ''tomato 0.2\<newline>Submitting...: jobid = 42\<newline>jobid = 43''
     = [''tomato 0.2''] @ ''Submitting...: jobid = 42'' # [''jobid = 43'']"
  by code_simp

lemma banner_no_match: "\<forall>l\<in>set [''tomato 0.2'']. TOMATO_SUBMITTED_REGEXP (strip l) = None"
  by code_simp

lemma banner_match: "TOMATO_SUBMITTED_REGEXP (strip ''Submitting...: jobid = 42'') = Some ''42''"
  by code_simp

lemma banner_head:
  "\<exists>p w. ''Submitting...: '' = p @ '':'' @ w \<and> list_all re_dot p \<and> list_all py_isspace w"
proof (intro exI conjI)
  show "''Submitting...: '' = ''Submitting...'' @ '':'' @ '' ''" by simp
  show "list_all re_dot ''Submitting...''" by (simp add: re_dot_def newline_def)
  show "list_all py_isspace '' ''" by (simp add: py_isspace_def)
qed

lemma banner_parts:
  "list_all py_isspace '' ''" "list_all py_isdigit ''42''"
  by (simp_all add: py_isspace_def py_isdigit_def)

theorem parse_submit_output_first_match_witness:
  "split_newline ''tomato 0.2\<newline>Submitting...: jobid = 42\<newline>jobid = 43''
     = [''tomato 0.2''] @ ''Submitting...: jobid = 42'' # [''jobid = 43'']
   \<and> list_all (\<lambda>l. TOMATO_SUBMITTED_REGEXP (strip l) = None) [''tomato 0.2'']
   \<and> TOMATO_SUBMITTED_REGEXP (strip ''Submitting...: jobid = 42'') = Some ''42''
   \<and> parse_submit_output 0 ''tomato 0.2\<newline>Submitting...: jobid = 42\<newline>jobid = 43'' ''''
       = Inr ''42''
   \<and> list_all py_isspace '' '' \<and> list_all py_isdigit ''42''
   \<and> TOMATO_SUBMITTED_REGEXP (''Submitting...: '' @ ''jobid'' @ '' '' @ ''='' @ '' '' @ ''42'' @ [])
       = Some ''42''"
  using parse_submit_output_first_match
          [where stdout = "''tomato 0.2\<newline>Submitting...: jobid = 42\<newline>jobid = 43''"
             and before = "[''tomato 0.2'']" and line = "''Submitting...: jobid = 42''"
             and after = "[''jobid = 43'']" and jobid = "''42''" and stderr = "''''"
             and spa = "'' ''" and spb = "'' ''" and digits = "''42''" and tail = "[]"
             and head = "''Submitting...: ''"]
    banner_lines banner_no_match banner_match banner_head banner_parts
  by (simp add: list_all_iff)

end
